theory Spec2Isabelle
  imports Complex_Main
begin

section \<open>The pricing engine of streamlit\_app.py\<close>

text \<open>
  Amounts are Python floats in the source. They are modelled as exact real numbers:
  the rounding of IEEE doubles, infinities and NaN are outside this model, and every
  statement below is about the exact arithmetic that the floats approximate.
  The karat is a Python int.
\<close>

subsection \<open>karat\_to\_purity\<close>

text \<open>\<^verbatim>\<open>return max(0.0, min(1.0, karat / 24.0))\<close>\<close>

definition karat_to_purity :: "int \<Rightarrow> real" where
  "karat_to_purity karat = max 0 (min 1 (real_of_int karat / 24))"

text \<open>
  The clamp of the specification, written from its words: a value below the lower bound
  becomes the lower bound, a value above the upper bound becomes the upper bound, and a
  value between them is left alone.
\<close>

definition spec_clamp :: "real \<Rightarrow> real \<Rightarrow> real \<Rightarrow> real" where
  "spec_clamp x lo hi = (if x < lo then lo else if hi < x then hi else x)"

subsection \<open>PriceBreakdown\<close>

text \<open>
  The class holds one dict, \<^verbatim>\<open>parts\<close>. A Python dict keeps its insertion order and
  has no two entries with the same key, so it is an association list in insertion order;
  that its keys are distinct is an invariant of the dict, stated where it is needed.
\<close>

record PriceBreakdown =
  parts :: "(string \<times> real) list"

text \<open>\<^verbatim>\<open>sum(v for k, v in self.parts.items() if k not in {"GST"})\<close>\<close>

definition subtotal :: "PriceBreakdown \<Rightarrow> real" where
  "subtotal pb = sum_list (map snd (filter (\<lambda>(k, v). k \<notin> {''GST''}) (parts pb)))"

text \<open>\<^verbatim>\<open>sum(self.parts.values())\<close>\<close>

definition total_pb :: "PriceBreakdown \<Rightarrow> real" where
  "total_pb pb = sum_list (map snd (parts pb))"

text \<open>
  \<^verbatim>\<open>pb.parts[name]\<close>, as \<^verbatim>\<open>main\<close> reads the final payable amount; a missing key
  (a KeyError in Python) is \<open>None\<close>.
\<close>

definition item :: "PriceBreakdown \<Rightarrow> string \<Rightarrow> real option" where
  "item pb name = map_of (parts pb) name"

subsection \<open>compute\_price\<close>

text \<open>
  The local variables of \<^verbatim>\<open>compute_price\<close>, in the order in which the function
  assigns them (lines 99 to 109 of the source).
\<close>

record price_locals =
  purity :: real
  gold_value :: real
  making :: real
  gross_before :: real
  insurance :: real
  gross :: real
  discount :: real
  net :: real
  gst :: real
  total_before_advance :: real
  final_payable :: real

definition compute_locals ::
  "real \<Rightarrow> int \<Rightarrow> real \<Rightarrow> real \<Rightarrow> real \<Rightarrow> real \<Rightarrow> real \<Rightarrow> real \<Rightarrow> real \<Rightarrow> real \<Rightarrow> real \<Rightarrow> real
    \<Rightarrow> real \<Rightarrow> real \<Rightarrow> real \<Rightarrow> price_locals" where
  "compute_locals weight_g karat base_rate_per_g making_pct making_min stone_cost
      hallmarking shipping insurance_pct certification_fee conversion_fee discount_pct
      advance_paid gst_pct final_lock_band =
    (let purity' = karat_to_purity karat;
         gold_value' = weight_g * base_rate_per_g * purity';
         making' = max making_min (gold_value' * making_pct / 100);
         gross_before' = gold_value' + making' + stone_cost + hallmarking + shipping
                           + certification_fee + conversion_fee;
         insurance' = gross_before' * (insurance_pct / 100);
         gross' = gross_before' + insurance';
         discount' = gross' * (discount_pct / 100);
         net' = gross' - discount';
         gst' = net' * (gst_pct / 100);
         total_before_advance' = net' + gst' + final_lock_band;
         final_payable' = max 0 (total_before_advance' - advance_paid)
     in \<lparr>purity = purity', gold_value = gold_value', making = making',
         gross_before = gross_before', insurance = insurance', gross = gross',
         discount = discount', net = net', gst = gst',
         total_before_advance = total_before_advance',
         final_payable = final_payable'\<rparr>)"

text \<open>The dict literal of lines 110 to 124, in the order in which it is written.\<close>

definition compute_price ::
  "real \<Rightarrow> int \<Rightarrow> real \<Rightarrow> real \<Rightarrow> real \<Rightarrow> real \<Rightarrow> real \<Rightarrow> real \<Rightarrow> real \<Rightarrow> real \<Rightarrow> real \<Rightarrow> real
    \<Rightarrow> real \<Rightarrow> real \<Rightarrow> real \<Rightarrow> PriceBreakdown" where
  "compute_price weight_g karat base_rate_per_g making_pct making_min stone_cost
      hallmarking shipping insurance_pct certification_fee conversion_fee discount_pct
      advance_paid gst_pct final_lock_band =
    (let v = compute_locals weight_g karat base_rate_per_g making_pct making_min
               stone_cost hallmarking shipping insurance_pct certification_fee
               conversion_fee discount_pct advance_paid gst_pct final_lock_band
     in \<lparr>parts =
          [(''Gold value'', gold_value v),
           (''Making charges'', making v),
           (''Stone cost'', stone_cost),
           (''Hallmarking'', hallmarking),
           (''Shipping'', shipping),
           (''Certification'', certification_fee),
           (''Conversion'', conversion_fee),
           (''Insurance'', insurance v),
           (''Discount'', - discount v),
           (''GST'', gst v),
           (''Advance paid'', - advance_paid),
           (''Final lock band'', final_lock_band),
           (''Final payable'', final_payable v)]\<rparr>)"

section \<open>The rate provider of streamlit\_app.py\<close>

subsection \<open>Python values and the operations the provider uses\<close>

text \<open>
  What \<^verbatim>\<open>r.json()\<close> can return: the Python value of a JSON document. A dict is
  an association list that is looked up by key. Floats are exact reals, as above.
\<close>

datatype pyval =
    PNone
  | PBool bool
  | PInt int
  | PFloat real
  | PStr string
  | PList "pyval list"
  | PDict "(string \<times> pyval) list"

text \<open>
  An exception is its class name and the text that \<^verbatim>\<open>str(e)\<close> gives. Every
  exception of this model is a subclass of \<^verbatim>\<open>Exception\<close>, which is what the
  handler of \<^verbatim>\<open>fetch_gold_rate\<close> catches.
\<close>

datatype py_exception = PyExc (exc_class: string) (str_of_exc: string)

fun type_name :: "pyval \<Rightarrow> string" where
  "type_name PNone = ''NoneType''"
| "type_name (PBool b) = ''bool''"
| "type_name (PInt i) = ''int''"
| "type_name (PFloat x) = ''float''"
| "type_name (PStr s) = ''str''"
| "type_name (PList xs) = ''list''"
| "type_name (PDict d) = ''dict''"

definition quoted :: "string \<Rightarrow> string" where
  "quoted s = CHR 0x27 # s @ [CHR 0x27]"

text \<open>The test of \<^verbatim>\<open>if v:\<close>.\<close>

fun truthy :: "pyval \<Rightarrow> bool" where
  "truthy PNone = False"
| "truthy (PBool b) = b"
| "truthy (PInt i) = (i \<noteq> 0)"
| "truthy (PFloat x) = (x \<noteq> 0)"
| "truthy (PStr s) = (s \<noteq> [])"
| "truthy (PList xs) = (xs \<noteq> [])"
| "truthy (PDict d) = (d \<noteq> [])"

text \<open>
  \<^verbatim>\<open>v.get(key, default)\<close>: the lookup of a dict, an AttributeError on anything
  else (none of the other JSON values has a \<^verbatim>\<open>get\<close>).
\<close>

fun py_get :: "pyval \<Rightarrow> string \<Rightarrow> pyval \<Rightarrow> py_exception + pyval" where
  "py_get (PDict d) key dflt =
     Inr (case map_of d key of None \<Rightarrow> dflt | Some v \<Rightarrow> v)"
| "py_get v key dflt =
     Inl (PyExc ''AttributeError''
            (quoted (type_name v) @ '' object has no attribute '' @ quoted ''get''))"

text \<open>
  The operands that \<^verbatim>\<open>/\<close> accepts: int, float and bool (a subclass of int, with
  \<^verbatim>\<open>True\<close> as 1 and \<^verbatim>\<open>False\<close> as 0).
\<close>

fun number_of :: "pyval \<Rightarrow> real option" where
  "number_of (PBool b) = Some (if b then 1 else 0)"
| "number_of (PInt i) = Some (real_of_int i)"
| "number_of (PFloat x) = Some x"
| "number_of v = None"

text \<open>
  \<^verbatim>\<open>a / b\<close>: true division gives a float, raises ZeroDivisionError on a zero
  divisor and TypeError on an operand that is no number.
\<close>

definition py_truediv :: "pyval \<Rightarrow> pyval \<Rightarrow> py_exception + real" where
  "py_truediv a b =
     (case (number_of a, number_of b) of
        (Some x, Some y) \<Rightarrow>
          if y = 0 then Inl (PyExc ''ZeroDivisionError'' ''division by zero'')
          else Inr (x / y)
      | _ \<Rightarrow>
          Inl (PyExc ''TypeError''
                 (''unsupported operand type(s) for /: '' @ quoted (type_name a)
                    @ '' and '' @ quoted (type_name b))))"

text \<open>
  \<^verbatim>\<open>s.replace(old, new)\<close>: every occurrence of \<open>old\<close>, found from the left and
  without overlap, becomes \<open>new\<close>; an empty \<open>old\<close> matches before every character
  and at the end.
\<close>

function replace_str :: "string \<Rightarrow> string \<Rightarrow> string \<Rightarrow> string" where
  "replace_str s old new =
     (if s = [] then (if old = [] then new else [])
      else if old = [] then new @ hd s # replace_str (tl s) old new
      else if take (length old) s = old
        then new @ replace_str (drop (length old) s) old new
      else hd s # replace_str (tl s) old new)"
  by pat_completeness auto
termination
  by (relation "measure (\<lambda>(s, old, new). length s)") auto

declare replace_str.simps [simp del]

subsection \<open>The network\<close>

text \<open>
  One call \<^verbatim>\<open>requests.get(url, headers=..., params=..., timeout=10)\<close>. The call
  either raises (no connection, timeout, ...) or returns a response, of which the
  provider reads \<^verbatim>\<open>r.ok\<close> and \<^verbatim>\<open>r.json()\<close>; the latter raises when the body is
  no JSON document.
\<close>

record request =
  url :: string
  headers :: "(string \<times> string) list"
  params :: "(string \<times> string) list"
  timeout :: nat

record response =
  ok :: bool
  json :: "py_exception + pyval"

text \<open>
  The module-level name \<^verbatim>\<open>requests\<close>: \<open>None\<close> when the import failed, and
  otherwise the module, of which only \<^verbatim>\<open>get\<close> is used.
\<close>

type_synonym requests_module = "(request \<Rightarrow> py_exception + response) option"

definition DEFAULT_CURRENCY :: string where
  "DEFAULT_CURRENCY = ''INR''"

definition FREE_GOLD_API :: string where
  "FREE_GOLD_API = ''https://www.metals-api.com/api/latest''"

definition PAID_GOLD_API :: string where
  "PAID_GOLD_API = ''https://www.goldapi.io/api/XAU/INR''"

subsection \<open>fetch\_gold\_rate\<close>

text \<open>
  The config is the dict that \<^verbatim>\<open>main\<close> passes: strings under the keys
  \<^verbatim>\<open>source\<close>, \<^verbatim>\<open>api_key\<close> and \<^verbatim>\<open>base_currency\<close>, any of which may be missing.
  \<^verbatim>\<open>config.get(key, default)\<close> is \<open>config_get\<close>. The meta dict is an association
  list in insertion order, and \<^verbatim>\<open>meta[key] = v\<close> is \<open>dict_set\<close>: the value of
  a key that is there is replaced in place, a new key is added at the end.
  The decorator \<^verbatim>\<open>st.cache_data\<close> is not modelled: what follows is the function body.
\<close>

type_synonym config = "(string \<times> string) list"

type_synonym meta_dict = "(string \<times> pyval) list"

definition config_get :: "config \<Rightarrow> string \<Rightarrow> string \<Rightarrow> string" where
  "config_get config key dflt =
     (case map_of config key of None \<Rightarrow> dflt | Some v \<Rightarrow> v)"

fun dict_set :: "meta_dict \<Rightarrow> string \<Rightarrow> pyval \<Rightarrow> meta_dict" where
  "dict_set [] key v = [(key, v)]"
| "dict_set ((k, w) # m) key v =
     (if k = key then (k, v) # m else (k, w) # dict_set m key v)"

record rate_result =
  per_gram :: "real option"
  meta :: meta_dict

text \<open>The request of the paid branch (lines 40 to 42).\<close>

definition paid_request :: "config \<Rightarrow> request" where
  "paid_request config =
     \<lparr>url = replace_str PAID_GOLD_API ''INR''
              (config_get config ''base_currency'' DEFAULT_CURRENCY),
      headers = [(''x-access-token'', config_get config ''api_key'' [])],
      params = [],
      timeout = 10\<rparr>"

text \<open>The request of the free branch (lines 49 to 53).\<close>

definition free_request :: "config \<Rightarrow> request" where
  "free_request config =
     \<lparr>url = FREE_GOLD_API,
      headers = [],
      params = [(''access_key'', config_get config ''api_key'' []),
                (''base'', config_get config ''base_currency'' DEFAULT_CURRENCY),
                (''symbols'', ''XAU'')],
      timeout = 10\<rparr>"

text \<open>
  The body of the \<^verbatim>\<open>try\<close> statement works on the two variables \<^verbatim>\<open>per_gram\<close> and
  \<^verbatim>\<open>meta\<close>. Each part of it returns the exception that left it, if one did, and the
  two variables as they are at that moment.
\<close>

type_synonym try_state = "py_exception option \<times> real option \<times> meta_dict"

text \<open>Lines 40 to 47.\<close>

definition paid_branch ::
  "(request \<Rightarrow> py_exception + response) \<Rightarrow> config \<Rightarrow> real option \<Rightarrow> meta_dict \<Rightarrow> try_state"
where
  "paid_branch get config per_gram0 meta0 =
     (case get (paid_request config) of
        Inl e \<Rightarrow> (Some e, per_gram0, meta0)
      | Inr r \<Rightarrow>
          if ok r then
            (case json r of
               Inl e \<Rightarrow> (Some e, per_gram0, meta0)
             | Inr body \<Rightarrow>
                 (case py_get body ''price'' PNone of
                    Inl e \<Rightarrow> (Some e, per_gram0, meta0)
                  | Inr price_per_oz \<Rightarrow>
                      if truthy price_per_oz then
                        (case py_truediv price_per_oz (PFloat 31.1034768) of
                           Inl e \<Rightarrow> (Some e, per_gram0, meta0)
                         | Inr g \<Rightarrow>
                             (None, Some g,
                              dict_set meta0 ''provider'' (PStr ''goldapi.io'')))
                      else (None, per_gram0, meta0)))
          else (None, per_gram0, meta0))"

text \<open>Lines 49 to 59.\<close>

definition free_branch ::
  "(request \<Rightarrow> py_exception + response) \<Rightarrow> config \<Rightarrow> real option \<Rightarrow> meta_dict \<Rightarrow> try_state"
where
  "free_branch get config per_gram0 meta0 =
     (case get (free_request config) of
        Inl e \<Rightarrow> (Some e, per_gram0, meta0)
      | Inr r \<Rightarrow>
          if ok r then
            (case json r of
               Inl e \<Rightarrow> (Some e, per_gram0, meta0)
             | Inr body \<Rightarrow>
                 (case py_get body ''rates'' (PDict []) of
                    Inl e \<Rightarrow> (Some e, per_gram0, meta0)
                  | Inr rates \<Rightarrow>
                      (case py_get rates ''XAU'' PNone of
                         Inl e \<Rightarrow> (Some e, per_gram0, meta0)
                       | Inr xau_rate \<Rightarrow>
                           if truthy xau_rate then
                             (case py_truediv (PInt 1) xau_rate of
                                Inl e \<Rightarrow> (Some e, per_gram0, meta0)
                              | Inr price_per_oz \<Rightarrow>
                                  (None, Some (price_per_oz / 31.1034768),
                                   dict_set meta0 ''provider'' (PStr ''metals-api'')))
                           else (None, per_gram0, meta0))))
          else (None, per_gram0, meta0))"

text \<open>The \<^verbatim>\<open>if\<close>/\<^verbatim>\<open>elif\<close> of lines 39 and 48.\<close>

definition try_body :: "requests_module \<Rightarrow> config \<Rightarrow> real option \<Rightarrow> meta_dict \<Rightarrow> try_state" where
  "try_body requests config per_gram0 meta0 =
     (if map_of config ''source'' = Some ''paid'' \<and> requests \<noteq> None
        then paid_branch (the requests) config per_gram0 meta0
      else if requests \<noteq> None
        then free_branch (the requests) config per_gram0 meta0
      else (None, per_gram0, meta0))"

text \<open>Line 37: the meta dict before the \<^verbatim>\<open>try\<close> statement.\<close>

definition initial_meta :: "config \<Rightarrow> string \<Rightarrow> meta_dict" where
  "initial_meta config now =
     [(''source'', (case map_of config ''source'' of None \<Rightarrow> PNone | Some s \<Rightarrow> PStr s)),
      (''timestamp'', PStr now)]"

text \<open>
  The whole function. \<open>now\<close> is \<^verbatim>\<open>datetime.utcnow().isoformat()\<close>. The handler
  \<^verbatim>\<open>except Exception as e: meta["error"] = str(e)\<close> takes every exception of the
  body, so the function has a result on every path.
\<close>

definition fetch_gold_rate :: "requests_module \<Rightarrow> config \<Rightarrow> string \<Rightarrow> rate_result" where
  "fetch_gold_rate requests config now =
     (let per_gram0 = None;
          meta0 = initial_meta config now
      in case try_body requests config per_gram0 meta0 of
           (Some e, per_gram1, meta1) \<Rightarrow>
             \<lparr>per_gram = per_gram1,
              meta = dict_set meta1 ''error'' (PStr (str_of_exc e))\<rparr>
         | (None, per_gram1, meta1) \<Rightarrow>
             \<lparr>per_gram = per_gram1, meta = meta1\<rparr>)"

subsection \<open>The outcomes of the upstream call that the specification names\<close>

text \<open>The request that a call with this config sends, whichever branch it takes.\<close>

definition request_for :: "config \<Rightarrow> request" where
  "request_for config =
     (if map_of config ''source'' = Some ''paid'' then paid_request config
      else free_request config)"

text \<open>
  The field of the response body in which the specification expects the number:
  \<^verbatim>\<open>price\<close> for the paid upstream, \<^verbatim>\<open>XAU\<close> inside \<^verbatim>\<open>rates\<close> for the free one.
\<close>

definition expected_field :: "config \<Rightarrow> pyval \<Rightarrow> pyval option" where
  "expected_field config body =
     (if map_of config ''source'' = Some ''paid'' then
        (case body of PDict d \<Rightarrow> map_of d ''price'' | _ \<Rightarrow> None)
      else
        (case body of
           PDict d \<Rightarrow>
             (case map_of d ''rates'' of
                Some (PDict rs) \<Rightarrow> map_of rs ''XAU''
              | _ \<Rightarrow> None)
         | _ \<Rightarrow> None))"

text \<open>
  A body that is a JSON object without the number: the key is not there or holds
  \<^verbatim>\<open>null\<close>; for the free upstream the key \<^verbatim>\<open>rates\<close> may be missing as a whole.
\<close>

definition absent :: "pyval option \<Rightarrow> bool" where
  "absent f = (f = None \<or> f = Some PNone)"

definition field_missing :: "config \<Rightarrow> pyval \<Rightarrow> bool" where
  "field_missing config body =
     (case body of
        PDict d \<Rightarrow>
          if map_of config ''source'' = Some ''paid'' then absent (map_of d ''price'')
          else (case map_of d ''rates'' of
                  None \<Rightarrow> True
                | Some (PDict rs) \<Rightarrow> absent (map_of rs ''XAU'')
                | Some _ \<Rightarrow> False)
      | _ \<Rightarrow> False)"

text \<open>
  A body without a number in the expected field, whatever else it holds: the field
  cannot be reached, is not there, or holds a value that is no number.
\<close>

definition no_number :: "config \<Rightarrow> pyval \<Rightarrow> bool" where
  "no_number config body =
     (case expected_field config body of None \<Rightarrow> True | Some v \<Rightarrow> number_of v = None)"







definition upstream_answering :: "response \<Rightarrow> request \<Rightarrow> py_exception + response" where
  "upstream_answering r req = Inr r"

section \<open>Properties of the pricing engine\<close>

text \<open>
  Claim C1. With weight 10 g, karat 22, base rate 6000 per gram, making percentage 12,
  making minimum 500 and everything else 0 (Scenario A), the breakdown holds a gold
  value of 55000, making charges of 6600 and a final payable of 61600; with a GST
  percentage of 3 instead of 0 (Scenario B), it holds a tax of 1848 and a final payable
  of 63448.
\<close>

theorem compute_price_scenarios_A_B:
  "parts (compute_price 10 22 6000 12 500 0 0 0 0 0 0 0 0 0 0) =
     [(''Gold value'', 55000), (''Making charges'', 6600), (''Stone cost'', 0),
      (''Hallmarking'', 0), (''Shipping'', 0), (''Certification'', 0),
      (''Conversion'', 0), (''Insurance'', 0), (''Discount'', 0), (''GST'', 0),
      (''Advance paid'', 0), (''Final lock band'', 0), (''Final payable'', 61600)]
   \<and> parts (compute_price 10 22 6000 12 500 0 0 0 0 0 0 0 0 3 0) =
     [(''Gold value'', 55000), (''Making charges'', 6600), (''Stone cost'', 0),
      (''Hallmarking'', 0), (''Shipping'', 0), (''Certification'', 0),
      (''Conversion'', 0), (''Insurance'', 0), (''Discount'', 0), (''GST'', 1848),
      (''Advance paid'', 0), (''Final lock band'', 0), (''Final payable'', 63448)]"
  by (simp add: compute_price_def compute_locals_def karat_to_purity_def Let_def)

text \<open>
  Claim C4. For every integer karat the purity that the engine computes is karat/24
  clamped to the interval from 0 to 1: it is karat/24 itself for the karats 24, 22, 20,
  18 and 14, it is 0 for every karat that is 0 or less (and then the gold value is 0),
  and it is 1 for every karat that is 24 or more, so that karat 30 is priced as 24.
\<close>

theorem karat_to_purity_clamps:
  "purity (compute_locals w k r mp mm sc hm sh ip cf cv dp ap gp lb) = karat_to_purity k
   \<and> karat_to_purity k = spec_clamp (real_of_int k / 24) 0 1
   \<and> (k \<in> {24, 22, 20, 18, 14} \<longrightarrow> karat_to_purity k = real_of_int k / 24)
   \<and> (k \<le> 0 \<longrightarrow> karat_to_purity k = 0
        \<and> item (compute_price w k r mp mm sc hm sh ip cf cv dp ap gp lb) ''Gold value''
            = Some 0)
   \<and> (24 \<le> k \<longrightarrow> karat_to_purity k = 1 \<and> karat_to_purity k = karat_to_purity 24)"
proof -
  have a: "purity (compute_locals w k r mp mm sc hm sh ip cf cv dp ap gp lb)
             = karat_to_purity k"
    by (simp add: compute_locals_def Let_def)
  have b: "karat_to_purity k = spec_clamp (real_of_int k / 24) 0 1"
    by (simp add: karat_to_purity_def spec_clamp_def max_def min_def)
  have c: "k \<in> {24, 22, 20, 18, 14} \<longrightarrow> karat_to_purity k = real_of_int k / 24"
    by (auto simp add: karat_to_purity_def)
  have d: "k \<le> 0 \<longrightarrow> karat_to_purity k = 0"
    by (simp add: karat_to_purity_def max_def min_def)
  have e: "k \<le> 0 \<longrightarrow>
             item (compute_price w k r mp mm sc hm sh ip cf cv dp ap gp lb) ''Gold value''
               = Some 0"
    using d by (simp add: item_def compute_price_def compute_locals_def Let_def)
  have f: "24 \<le> k \<longrightarrow> karat_to_purity k = 1 \<and> karat_to_purity k = karat_to_purity 24"
    by (simp add: karat_to_purity_def max_def min_def)
  from a b c d e f show ?thesis by blast
qed

theorem karat_to_purity_clamps_witness:
  "(22::int) \<in> {24, 22, 20, 18, 14} \<and> karat_to_purity 22 = 11 / 12
   \<and> (-5::int) \<le> 0 \<and> karat_to_purity (-5) = 0
   \<and> item (compute_price 10 (-5) 6000 12 500 0 0 0 0 0 0 0 0 0 0) ''Gold value'' = Some 0
   \<and> (24::int) \<le> 30 \<and> karat_to_purity 30 = 1"
  using karat_to_purity_clamps [of 10 22 6000 12 500 0 0 0 0 0 0 0 0 0 0]
        karat_to_purity_clamps [of 10 "-5" 6000 12 500 0 0 0 0 0 0 0 0 0 0]
        karat_to_purity_clamps [of 10 30 6000 12 500 0 0 0 0 0 0 0 0 0 0]
  by simp

text \<open>
  Claim C5. When every input is non-negative, the final payable amount of the breakdown
  is non-negative, also when the advance is more than the total before the advance:
  an advance of 70000 against a total before advance of 63448 gives a final payable
  of 0.
\<close>

theorem final_payable_nonneg:
  "(0 \<le> w \<and> 0 \<le> k \<and> 0 \<le> r \<and> 0 \<le> mp \<and> 0 \<le> mm \<and> 0 \<le> sc \<and> 0 \<le> hm \<and> 0 \<le> sh
     \<and> 0 \<le> ip \<and> 0 \<le> cf \<and> 0 \<le> cv \<and> 0 \<le> dp \<and> 0 \<le> ap \<and> 0 \<le> gp \<and> 0 \<le> lb
    \<longrightarrow> (\<exists>p. item (compute_price w k r mp mm sc hm sh ip cf cv dp ap gp lb)
                  ''Final payable'' = Some p
             \<and> 0 \<le> p))
   \<and> total_before_advance (compute_locals 10 22 6000 12 500 0 0 0 0 0 0 0 70000 3 0)
       = 63448
   \<and> item (compute_price 10 22 6000 12 500 0 0 0 0 0 0 0 70000 3 0) ''Final payable''
       = Some 0"
  by (simp add: item_def compute_price_def compute_locals_def karat_to_purity_def Let_def)

theorem final_payable_nonneg_witness:
  "(0::real) \<le> 10 \<and> (0::int) \<le> 22 \<and> (0::real) \<le> 6000 \<and> (0::real) \<le> 12
   \<and> (0::real) \<le> 500 \<and> (0::real) \<le> 70000 \<and> (0::real) \<le> 3
   \<and> (\<exists>p. item (compute_price 10 22 6000 12 500 0 0 0 0 0 0 0 70000 3 0)
              ''Final payable'' = Some p
         \<and> 0 \<le> p)"
  using final_payable_nonneg [of 10 22 6000 12 500 0 0 0 0 0 0 0 70000 3 0]
  by simp

text \<open>
  Claim C6. For every parameter set the making charge of the breakdown is at least the
  making minimum and at least the gold value times the making percentage over 100.
\<close>

theorem making_floor:
  "(let v = compute_locals w k r mp mm sc hm sh ip cf cv dp ap gp lb;
        pb = compute_price w k r mp mm sc hm sh ip cf cv dp ap gp lb
    in item pb ''Making charges'' = Some (making v)
       \<and> item pb ''Gold value'' = Some (gold_value v)
       \<and> mm \<le> making v
       \<and> gold_value v * mp / 100 \<le> making v
       \<and> making v = max mm (gold_value v * mp / 100))"
  by (simp add: item_def compute_price_def compute_locals_def Let_def)

text \<open>
  Claim C7. For every parameter set the breakdown has exactly thirteen line items, in
  this order: Gold value, Making charges, Stone cost, Hallmarking, Shipping,
  Certification, Conversion, Insurance, Discount, GST, Advance paid, Final lock band,
  Final payable. The names are pairwise different, so the dict literal keeps all
  thirteen. The Discount entry is the negated discount, and the Advance paid entry is
  the negated advance.
\<close>

theorem breakdown_order:
  "(let v = compute_locals w k r mp mm sc hm sh ip cf cv dp ap gp lb;
        pb = compute_price w k r mp mm sc hm sh ip cf cv dp ap gp lb
    in map fst (parts pb) =
         [''Gold value'', ''Making charges'', ''Stone cost'', ''Hallmarking'',
          ''Shipping'', ''Certification'', ''Conversion'', ''Insurance'', ''Discount'',
          ''GST'', ''Advance paid'', ''Final lock band'', ''Final payable'']
       \<and> length (parts pb) = 13
       \<and> distinct (map fst (parts pb))
       \<and> item pb ''Discount'' = Some (- discount v)
       \<and> discount v = gross v * (dp / 100)
       \<and> item pb ''Advance paid'' = Some (- ap))"
  by (simp add: item_def compute_price_def compute_locals_def Let_def)

subsection \<open>Sums over a dict\<close>

lemma sum_list_alist_keys:
  "distinct (map fst xs) \<Longrightarrow>
     sum_list (map snd xs) = (\<Sum>k \<in> fst ` set xs. the (map_of xs k))"
proof (induction xs)
  case Nil
  then show ?case by simp
next
  case (Cons p xs)
  obtain k v where p: "p = (k, v)" by (cases p)
  from Cons.prems p have fresh: "k \<notin> fst ` set xs" and d: "distinct (map fst xs)"
    by auto
  have same: "(\<Sum>j \<in> fst ` set xs. the (map_of (p # xs) j))
                = (\<Sum>j \<in> fst ` set xs. the (map_of xs j))"
    using fresh p by (intro sum.cong) auto
  have "(\<Sum>j \<in> fst ` set (p # xs). the (map_of (p # xs) j))
          = v + (\<Sum>j \<in> fst ` set xs. the (map_of (p # xs) j))"
    using fresh p by simp
  with same Cons.IH [OF d] p show ?case by simp
qed

lemma sum_list_alist_without:
  "distinct (map fst xs) \<Longrightarrow>
     sum_list (map snd (filter (\<lambda>(k, v). k \<notin> {g}) xs))
       = (\<Sum>k \<in> fst ` set xs - {g}. the (map_of xs k))"
proof (induction xs)
  case Nil
  then show ?case by simp
next
  case (Cons p xs)
  obtain k v where p: "p = (k, v)" by (cases p)
  from Cons.prems p have fresh: "k \<notin> fst ` set xs" and d: "distinct (map fst xs)"
    by auto
  have same: "(\<Sum>j \<in> fst ` set xs - {g}. the (map_of (p # xs) j))
                = (\<Sum>j \<in> fst ` set xs - {g}. the (map_of xs j))"
    using fresh p by (intro sum.cong) auto
  show ?case
  proof (cases "k = g")
    case True
    then have "fst ` set (p # xs) - {g} = fst ` set xs - {g}"
      using p by auto
    with True same Cons.IH [OF d] p show ?thesis by simp
  next
    case False
    then have ins: "fst ` set (p # xs) - {g} = insert k (fst ` set xs - {g})"
      using p by auto
    have "(\<Sum>j \<in> insert k (fst ` set xs - {g}). the (map_of (p # xs) j))
            = v + (\<Sum>j \<in> fst ` set xs - {g}. the (map_of (p # xs) j))"
      using fresh p by simp
    with False same ins Cons.IH [OF d] p show ?thesis by simp
  qed
qed

lemma sum_list_alist_diff:
  "distinct (map fst xs) \<Longrightarrow>
     sum_list (map snd xs) - sum_list (map snd (filter (\<lambda>(k, v). k \<notin> {g}) xs))
       = (case map_of xs g of None \<Rightarrow> 0 | Some (a::real) \<Rightarrow> a)"
proof (induction xs)
  case Nil
  then show ?case by simp
next
  case (Cons p xs)
  obtain k v where p: "p = (k, v)" by (cases p)
  from Cons.prems p have fresh: "k \<notin> fst ` set xs" and d: "distinct (map fst xs)"
    by auto
  show ?case
  proof (cases "k = g")
    case True
    with fresh have "map_of xs g = None"
      by (simp add: map_of_eq_None_iff)
    with True Cons.IH [OF d] p show ?thesis by simp
  next
    case False
    with Cons.IH [OF d] p show ?thesis by simp
  qed
qed

text \<open>
  Claim C8. For every PriceBreakdown (a dict: its keys are pairwise different), the
  subtotal is the sum of the amounts of all line items but the GST entry, the total is
  the sum of the amounts of all line items, and the total minus the subtotal is the
  GST entry (nothing, when the breakdown has no such entry).
\<close>

theorem subtotal_excludes_gst:
  "distinct (map fst (parts pb)) \<Longrightarrow>
     subtotal pb = (\<Sum>k \<in> fst ` set (parts pb) - {''GST''}. the (item pb k))
     \<and> total_pb pb = (\<Sum>k \<in> fst ` set (parts pb). the (item pb k))
     \<and> total_pb pb - subtotal pb = (case item pb ''GST'' of None \<Rightarrow> 0 | Some g \<Rightarrow> g)"
  unfolding subtotal_def total_pb_def item_def
  using sum_list_alist_keys [of "parts pb"]
        sum_list_alist_without [of "parts pb" "''GST''"]
        sum_list_alist_diff [of "parts pb" "''GST''"]
  by simp

theorem subtotal_excludes_gst_witness:
  "distinct (map fst (parts (compute_price 10 22 6000 12 500 0 0 0 0 0 0 0 0 3 0)))
   \<and> total_pb (compute_price 10 22 6000 12 500 0 0 0 0 0 0 0 0 3 0)
       - subtotal (compute_price 10 22 6000 12 500 0 0 0 0 0 0 0 0 3 0) = 1848"
proof -
  have d: "distinct (map fst (parts (compute_price 10 22 6000 12 500 0 0 0 0 0 0 0 0 3 0)))"
    by (simp add: compute_price_def Let_def)
  have g: "item (compute_price 10 22 6000 12 500 0 0 0 0 0 0 0 0 3 0) ''GST'' = Some 1848"
    by (simp add: item_def compute_price_def compute_locals_def karat_to_purity_def
                  Let_def)
  from subtotal_excludes_gst [OF d] g d show ?thesis by simp
qed

text \<open>
  Claim C9. The final payable amount is itself one of the line items that the total
  adds up, so for every parameter set the total is net plus tax plus lock band, minus
  the advance, plus the final payable amount. With no advance and a positive amount
  due, the total is exactly twice the final payable amount, and so is not the amount
  due. The total and the final payable amount coincide only when the advance is exactly
  the total before the advance, where both are 0.
\<close>

theorem total_counts_final_payable:
  "(let v = compute_locals w k r mp mm sc hm sh ip cf cv dp ap gp lb;
        pb = compute_price w k r mp mm sc hm sh ip cf cv dp ap gp lb
    in total_pb pb = (net v + gst v + lb) - ap + final_payable v
       \<and> (ap = 0 \<and> 0 < final_payable v
            \<longrightarrow> total_pb pb = 2 * final_payable v \<and> total_pb pb \<noteq> final_payable v)
       \<and> (total_pb pb = final_payable v \<longleftrightarrow> total_before_advance v = ap))"
proof -
  let ?v = "compute_locals w k r mp mm sc hm sh ip cf cv dp ap gp lb"
  let ?pb = "compute_price w k r mp mm sc hm sh ip cf cv dp ap gp lb"
  have eq: "total_pb ?pb = (net ?v + gst ?v + lb) - ap + final_payable ?v"
    by (simp add: total_pb_def compute_price_def compute_locals_def Let_def)
  have tba: "total_before_advance ?v = net ?v + gst ?v + lb"
    by (simp add: compute_locals_def Let_def)
  have fp: "final_payable ?v = max 0 (total_before_advance ?v - ap)"
    by (simp add: compute_locals_def Let_def)
  have dbl: "total_pb ?pb = 2 * final_payable ?v \<and> total_pb ?pb \<noteq> final_payable ?v"
    if "ap = 0" and "0 < final_payable ?v"
    using that eq tba fp by (simp add: max_def split: if_splits)
  have same: "total_pb ?pb = final_payable ?v \<longleftrightarrow> total_before_advance ?v = ap"
    using eq tba by auto
  from eq dbl same show ?thesis unfolding Let_def by blast
qed

theorem total_counts_final_payable_witness:
  "(0::real) = 0
   \<and> 0 < final_payable (compute_locals 10 22 6000 12 500 0 0 0 0 0 0 0 0 0 0)
   \<and> total_pb (compute_price 10 22 6000 12 500 0 0 0 0 0 0 0 0 0 0) = 123200
   \<and> final_payable (compute_locals 10 22 6000 12 500 0 0 0 0 0 0 0 0 0 0) = 61600"
  using total_counts_final_payable [of 10 22 6000 12 500 0 0 0 0 0 0 0 0 0 0]
  by (simp add: Let_def compute_locals_def karat_to_purity_def)

section \<open>Properties of the rate provider\<close>

text \<open>The currency of the config replaces the one in the address of the paid upstream.\<close>

lemma paid_request_url:
  "url (paid_request [(''source'', ''paid''), (''base_currency'', ''USD'')])
     = ''https://www.goldapi.io/api/XAU/USD''"
  by code_simp

subsection \<open>What the body of the try statement leaves behind\<close>









subsection \<open>Numbers, truth values and division\<close>

lemma number_of_truthy: "number_of v = Some x \<Longrightarrow> truthy v = (x \<noteq> 0)"
  by (cases v) (auto split: if_splits)

lemma absent_not_truthy: "absent (map_of d key) \<Longrightarrow>
    \<not> truthy (case map_of d key of None \<Rightarrow> PNone | Some v \<Rightarrow> v)"
  by (auto simp add: absent_def)




subsection \<open>The price per gram of each branch\<close>




subsection \<open>The failures of the upstream call\<close>




lemma try_body_field_missing:
  assumes "get (request_for config) = Inr r" and "ok r" and "json r = Inr body"
    and "field_missing config body"
  shows "try_body (Some get) config g m = (None, g, m)"
proof -
  from assms(4) obtain d where d: "body = PDict d"
    by (cases body) (simp_all add: field_missing_def)
  show ?thesis
  proof (cases "map_of config ''source'' = Some ''paid''")
    case True
    with assms d have "\<not> truthy (case map_of d ''price'' of None \<Rightarrow> PNone | Some v \<Rightarrow> v)"
      by (simp add: field_missing_def absent_not_truthy)
    with True assms(1-3) d show ?thesis
      by (simp add: try_body_def request_for_def paid_branch_def)
  next
    case False
    show ?thesis
    proof (cases "map_of d ''rates''")
      case None
      with False assms(1-3) d show ?thesis
        by (simp add: try_body_def request_for_def free_branch_def)
    next
      case (Some rates)
      with False assms(4) d obtain rs where rs: "rates = PDict rs"
        and ab: "absent (map_of rs ''XAU'')"
        by (cases rates) (simp_all add: field_missing_def)
      from ab have "\<not> truthy (case map_of rs ''XAU'' of None \<Rightarrow> PNone | Some v \<Rightarrow> v)"
        by (rule absent_not_truthy)
      with False Some rs assms(1-3) d show ?thesis
        by (simp add: try_body_def request_for_def free_branch_def)
    qed
  qed
qed

lemma try_body_field_zero:
  assumes "get (request_for config) = Inr r" and "ok r" and "json r = Inr body"
    and "expected_field config body = Some v" and "number_of v = Some 0"
  shows "try_body (Some get) config g m = (None, g, m)"
proof -
  from assms(5) have nt: "\<not> truthy v"
    by (simp add: number_of_truthy)
  from assms(4) obtain d where d: "body = PDict d"
    by (cases body) (simp_all add: expected_field_def split: if_splits)
  show ?thesis
  proof (cases "map_of config ''source'' = Some ''paid''")
    case True
    with assms(4) d have "map_of d ''price'' = Some v"
      by (simp add: expected_field_def)
    with nt True assms(1-3) d show ?thesis
      by (simp add: try_body_def request_for_def paid_branch_def)
  next
    case False
    with assms(4) d obtain rs where "map_of d ''rates'' = Some (PDict rs)"
      and "map_of rs ''XAU'' = Some v"
      by (auto simp add: expected_field_def split: option.splits pyval.splits)
    with nt False assms(1-3) d show ?thesis
      by (simp add: try_body_def request_for_def free_branch_def)
  qed
qed

lemma fetch_unchanged:
  "try_body rq config None (initial_meta config now) = (None, None, initial_meta config now)
     \<Longrightarrow> fetch_gold_rate rq config now = \<lparr>per_gram = None, meta = initial_meta config now\<rparr>"
  by (simp add: fetch_gold_rate_def Let_def)

subsection \<open>When the body of the try statement raises\<close>








lemma field_missing_no_number: "field_missing config body \<Longrightarrow> no_number config body"
  by (auto simp add: field_missing_def no_number_def expected_field_def absent_def
           split: pyval.splits option.splits if_splits)









text \<open>
  Claim C10. Both divisions stand behind a truth test of the number: when the upstream
  answers with a zero in the expected field (\<^verbatim>\<open>rates.XAU\<close> for the free source,
  \<^verbatim>\<open>price\<close> for the paid one) or without the field, the body of the try statement
  ends without an exception and without a change to its variables, so the result has a
  null price per gram and no error entry. The division itself would have raised a
  ZeroDivisionError on that zero.
\<close>

theorem division_guarded:
  "(rq = Some get \<and> get (request_for config) = Inr r \<and> ok r \<and> json r = Inr body
      \<and> (field_missing config body
          \<or> expected_field config body = Some v \<and> number_of v = Some 0)
    \<longrightarrow> try_body rq config None (initial_meta config now)
          = (None, None, initial_meta config now)
        \<and> fetch_gold_rate rq config now
          = \<lparr>per_gram = None, meta = initial_meta config now\<rparr>)
   \<and> py_truediv (PInt 1) (PInt 0) = Inl (PyExc ''ZeroDivisionError'' ''division by zero'')
   \<and> py_truediv (PInt 1) (PFloat 0) = Inl (PyExc ''ZeroDivisionError'' ''division by zero'')"
proof -
  have "try_body rq config None (initial_meta config now)
          = (None, None, initial_meta config now)"
    if "rq = Some get" "get (request_for config) = Inr r" "ok r" "json r = Inr body"
       "field_missing config body \<or> expected_field config body = Some v \<and> number_of v = Some 0"
    using that try_body_field_missing try_body_field_zero by blast
  then show ?thesis
    using fetch_unchanged [of rq config now] by (auto simp add: py_truediv_def)
qed

theorem division_guarded_witness:
  "expected_field [(''source'', ''free'')] (PDict [(''rates'', PDict [(''XAU'', PInt 0)])])
     = Some (PInt 0)
   \<and> number_of (PInt 0) = Some 0
   \<and> fetch_gold_rate
        (Some (upstream_answering
                 \<lparr>ok = True, json = Inr (PDict [(''rates'', PDict [(''XAU'', PInt 0)])])\<rparr>))
        [(''source'', ''free'')] ''t''
     = \<lparr>per_gram = None, meta = [(''source'', PStr ''free''), (''timestamp'', PStr ''t'')]\<rparr>
   \<and> expected_field [(''source'', ''paid'')] (PDict [(''price'', PFloat 0)]) = Some (PFloat 0)
   \<and> number_of (PFloat 0) = Some 0
   \<and> fetch_gold_rate
        (Some (upstream_answering \<lparr>ok = True, json = Inr (PDict [(''price'', PFloat 0)])\<rparr>))
        [(''source'', ''paid'')] ''t''
     = \<lparr>per_gram = None, meta = [(''source'', PStr ''paid''), (''timestamp'', PStr ''t'')]\<rparr>"
  using division_guarded
          [of "Some (upstream_answering
                 \<lparr>ok = True, json = Inr (PDict [(''rates'', PDict [(''XAU'', PInt 0)])])\<rparr>)"
              "upstream_answering
                 \<lparr>ok = True, json = Inr (PDict [(''rates'', PDict [(''XAU'', PInt 0)])])\<rparr>"
              "[(''source'', ''free'')]"
              "\<lparr>ok = True, json = Inr (PDict [(''rates'', PDict [(''XAU'', PInt 0)])])\<rparr>"
              "PDict [(''rates'', PDict [(''XAU'', PInt 0)])]" "PInt 0" "''t''"]
        division_guarded
          [of "Some (upstream_answering \<lparr>ok = True, json = Inr (PDict [(''price'', PFloat 0)])\<rparr>)"
              "upstream_answering \<lparr>ok = True, json = Inr (PDict [(''price'', PFloat 0)])\<rparr>"
              "[(''source'', ''paid'')]"
              "\<lparr>ok = True, json = Inr (PDict [(''price'', PFloat 0)])\<rparr>"
              "PDict [(''price'', PFloat 0)]" "PFloat 0" "''t''"]
  by (simp add: upstream_answering_def expected_field_def initial_meta_def)

end
